theory Spec2Isabelle
  imports Main
begin

section \<open>JavaScript values\<close>

text \<open>
  The front end is JavaScript: response bodies are parsed into dynamically typed values, and
  the handlers test them for truthiness, read properties from them and splice them into
  template strings. A number is kept as the decimal text that \<open>Number.prototype.toString\<close>
  prints for it (\<open>''0''\<close> for both zeros, \<open>''NaN''\<close>), which is all the handlers ever look at.
  An object is the list of its own properties.
\<close>

datatype jsval =
    JUndefined
  | JNull
  | JBool bool
  | JNum string
  | JStr string
  | JArr "jsval list"
  | JObj "(string \<times> jsval) list"

text \<open>Truthiness, as used by \<open>||\<close>, \<open>&&\<close> and \<open>if\<close>.\<close>

fun truthy :: "jsval \<Rightarrow> bool" where
  "truthy JUndefined = False"
| "truthy JNull = False"
| "truthy (JBool b) = b"
| "truthy (JNum n) = (n \<noteq> ''0'' \<and> n \<noteq> ''NaN'')"
| "truthy (JStr s) = (s \<noteq> [])"
| "truthy (JArr xs) = True"
| "truthy (JObj kvs) = True"

text \<open>\<open>a || b\<close> on values.\<close>

definition js_or :: "jsval \<Rightarrow> jsval \<Rightarrow> jsval" where
  "js_or a b = (if truthy a then a else b)"

text \<open>
  Property read \<open>v.k\<close>. Reading from \<open>null\<close> or \<open>undefined\<close> throws a TypeError (\<open>None\<close>);
  a primitive or an array has no property of the names used here.
\<close>

fun get_prop :: "jsval \<Rightarrow> string \<Rightarrow> jsval option" where
  "get_prop JUndefined k = None"
| "get_prop JNull k = None"
| "get_prop (JObj kvs) k = Some (case map_of kvs k of None \<Rightarrow> JUndefined | Some v \<Rightarrow> v)"
| "get_prop v k = Some JUndefined"

fun intercalate :: "string \<Rightarrow> string list \<Rightarrow> string" where
  "intercalate sep [] = []"
| "intercalate sep [x] = x"
| "intercalate sep (x # y # ys) = x @ sep @ intercalate sep (y # ys)"

text \<open>String conversion, as done by a template literal and by the \<open>Error\<close> constructor.\<close>

fun ToString :: "jsval \<Rightarrow> string" where
  "ToString JUndefined = ''undefined''"
| "ToString JNull = ''null''"
| "ToString (JBool b) = (if b then ''true'' else ''false'')"
| "ToString (JNum n) = n"
| "ToString (JStr s) = s"
| "ToString (JArr xs) =
     intercalate '','' (map (\<lambda>x. if x = JNull \<or> x = JUndefined then [] else ToString x) xs)"
| "ToString (JObj kvs) = ''[object Object]''"

text \<open>Decimal text of a status code, for \<open>`... ${response.status}`\<close>.\<close>

definition digit_char :: "nat \<Rightarrow> char" where
  "digit_char d = char_of (48 + d mod 10)"

fun show_nat :: "nat \<Rightarrow> string" where
  "show_nat n = (if n < 10 then [digit_char n] else show_nat (n div 10) @ [digit_char n])"

declare show_nat.simps [simp del]

text \<open>
  What the handlers need from the JavaScript engine and is not in the repository: the JSON
  parser (\<open>Inl\<close> the message of the SyntaxError it throws) and the message of the TypeError
  thrown by a property read from \<open>null\<close> or \<open>undefined\<close>.
\<close>

record engine =
  JSON_parse :: "string \<Rightarrow> string + jsval"
  TypeError_message :: "string \<Rightarrow> string"

section \<open>config.js: the base URL\<close>

text \<open>\<open>raw.replace(/\/+$/, "")\<close>: the match is the whole run of slashes at the end.\<close>

definition strip_trailing_slashes :: "string \<Rightarrow> string" where
  "strip_trailing_slashes s = rev (dropWhile (\<lambda>c. c = CHR ''/'') (rev s))"

text \<open>
  Case folding of the \<open>i\<close> flag: letters are compared by their upper case. Against the
  ASCII pattern only the ASCII letters matter.
\<close>

definition upper_of :: "char \<Rightarrow> char" where
  "upper_of c =
     (case map_of (zip ''abcdefghijklmnopqrstuvwxyz'' ''ABCDEFGHIJKLMNOPQRSTUVWXYZ'') c of
        Some u \<Rightarrow> u
      | None \<Rightarrow> c)"

definition ends_with_api_v1 :: "string \<Rightarrow> bool" where
  "ends_with_api_v1 s \<longleftrightarrow>
     7 \<le> length s \<and> map upper_of (drop (length s - 7) s) = map upper_of ''/api/v1''"

text \<open>\<open>normalized.replace(/\/api\/v1$/i, "")\<close>\<close>

definition strip_api_v1 :: "string \<Rightarrow> string" where
  "strip_api_v1 s = (if ends_with_api_v1 s then take (length s - 7) s else s)"

definition normalize_url :: "string \<Rightarrow> string" where
  "normalize_url raw = strip_api_v1 (strip_trailing_slashes raw)"

text \<open>
  \<open>import.meta.env.VITE_API_URL || "http://localhost:8000"\<close>: an unset or empty variable
  gives the default.
\<close>

definition API_URL :: "string option \<Rightarrow> string" where
  "API_URL env =
     normalize_url (case env of
                  None \<Rightarrow> ''http://localhost:8000''
                | Some v \<Rightarrow> if v = [] then ''http://localhost:8000'' else v)"

text \<open>A root in normal form: no slash and no \<open>/api/v1\<close> at its end.\<close>

definition canonical_root :: "string \<Rightarrow> bool" where
  "canonical_root r \<longleftrightarrow> (r = [] \<or> last r \<noteq> CHR ''/'') \<and> \<not> ends_with_api_v1 r"

section \<open>The process-status model\<close>

datatype status = Idle | Loading | Success | Error | Eavesdropper

text \<open>
  One pipeline's record \<open>{ status, type, message }\<close>. The summary objects built by
  \<open>getConnectionStatus\<close> have no \<open>type\<close> property.
\<close>

record process =
  status :: status
  type :: "status option"
  message :: jsval

record pipelines =
  session :: process
  encrypt :: process
  decrypt :: process

definition INITIAL_PROCESS_STATUS :: pipelines where
  "INITIAL_PROCESS_STATUS =
     \<lparr> session = \<lparr> status = Idle, type = Some Idle, message = JStr ''Waiting for key generation...'' \<rparr>,
       encrypt = \<lparr> status = Idle, type = Some Idle, message = JStr ''Waiting for file...'' \<rparr>,
       decrypt = \<lparr> status = Idle, type = Some Idle, message = JStr ''Waiting for components...'' \<rparr> \<rparr>"

subsection \<open>Visualizer: the headline status\<close>

definition getConnectionStatus :: "pipelines \<Rightarrow> process" where
  "getConnectionStatus processes =
     (if status (session processes) = Eavesdropper then session processes
      else
        let errorProcess =
              (if status (decrypt processes) = Error then Some (decrypt processes)
               else if status (encrypt processes) = Error then Some (encrypt processes)
               else if status (session processes) = Error then Some (session processes)
               else None)
        in case errorProcess of
             Some p \<Rightarrow> \<lparr> status = Error, type = None, message = message p \<rparr>
           | None \<Rightarrow>
               if status (decrypt processes) = Loading then decrypt processes
               else if status (encrypt processes) = Loading then encrypt processes
               else if status (session processes) = Loading then session processes
               else \<lparr> status = Success, type = None, message = JStr ''Secure Tunnel Active'' \<rparr>)"

definition getTopMessage :: "pipelines \<Rightarrow> jsval" where
  "getTopMessage processes =
     (if status (session processes) = Eavesdropper then message (session processes)
      else if status (decrypt processes) = Error then message (decrypt processes)
      else if status (encrypt processes) = Error then message (encrypt processes)
      else if status (session processes) = Error then message (session processes)
      else if status (decrypt processes) = Loading then message (decrypt processes)
      else if status (encrypt processes) = Loading then message (encrypt processes)
      else if status (session processes) = Loading then message (session processes)
      else if status (decrypt processes) = Success then message (decrypt processes)
      else if status (encrypt processes) = Success then message (encrypt processes)
      else if status (session processes) = Success then message (session processes)
      else message (session processes))"

text \<open>
  ConnectionVisual chooses what to draw from \<open>status?.type || 'idle'\<close> of the summary it
  is given.
\<close>

definition ConnectionVisual_type :: "process \<Rightarrow> status" where
  "ConnectionVisual_type st = (case type st of Some t \<Rightarrow> t | None \<Rightarrow> Idle)"

text \<open>
  The priority rule in the words of the specification: the pipelines are scanned in one
  fixed order (decrypt, encrypt, session) for the first record of a given status.
\<close>

definition scan_order :: "pipelines \<Rightarrow> process list" where
  "scan_order processes = [decrypt processes, encrypt processes, session processes]"

definition first_with :: "status \<Rightarrow> pipelines \<Rightarrow> process option" where
  "first_with st processes = find (\<lambda>p. status p = st) (scan_order processes)"

definition headline_rank :: "pipelines \<Rightarrow> status" where
  "headline_rank processes =
     (if status (session processes) = Eavesdropper then Eavesdropper
      else if list_ex (\<lambda>p. status p = Error) (scan_order processes) then Error
      else if list_ex (\<lambda>p. status p = Loading) (scan_order processes) then Loading
      else Success)"

definition headline_by_priority :: "pipelines \<Rightarrow> process" where
  "headline_by_priority processes =
     (if status (session processes) = Eavesdropper then session processes
      else case first_with Error processes of
             Some p \<Rightarrow> \<lparr> status = Error, type = None, message = message p \<rparr>
           | None \<Rightarrow>
               (case first_with Loading processes of
                  Some p \<Rightarrow> p
                | None \<Rightarrow> \<lparr> status = Success, type = None, message = JStr ''Secure Tunnel Active'' \<rparr>))"

definition top_message_by_priority :: "pipelines \<Rightarrow> jsval" where
  "top_message_by_priority processes =
     (if status (session processes) = Eavesdropper then message (session processes)
      else case first_with Error processes of
             Some p \<Rightarrow> message p
           | None \<Rightarrow>
               (case first_with Loading processes of
                  Some p \<Rightarrow> message p
                | None \<Rightarrow>
                    (case first_with Success processes of
                       Some p \<Rightarrow> message p
                     | None \<Rightarrow> message (session processes))))"

section \<open>api.js: the request layer\<close>

datatype jsfile = File (file_name: string) (file_bytes: string)

text \<open>A \<open>FormData\<close> entry: a text field, or a file with the file name sent along.\<close>

datatype formvalue = Text string | Blob jsfile string

type_synonym formdata = "(string \<times> formvalue) list"

record request =
  url :: string
  http_method :: string
  body :: formdata

text \<open>
  What \<open>fetch\<close> comes back with: a rejection (a TypeError with its message) or a response
  with its status code and body text.
\<close>

datatype reply = NetworkError string | Response nat string

text \<open>\<open>res.ok\<close>\<close>

definition ok :: "nat \<Rightarrow> bool" where
  "ok st \<longleftrightarrow> 200 \<le> st \<and> st \<le> 299"

text \<open>An \<open>Error\<close> object, as far as the handlers read it: its \<open>message\<close>.\<close>

definition js_Error :: "string \<Rightarrow> jsval" where
  "js_Error m = JObj [(''message'', JStr m)]"

text \<open>\<open>v && v.k\<close>\<close>

definition guarded_prop :: "jsval \<Rightarrow> string \<Rightarrow> jsval" where
  "guarded_prop v k =
     (if truthy v then (case get_prop v k of Some x \<Rightarrow> x | None \<Rightarrow> JUndefined) else v)"

text \<open>
  The \<open>try\<close> block of \<open>postFormJson\<close>: \<open>Inl\<close> is the value thrown inside it, by
  \<open>JSON.parse\<close> or by the \<open>throw\<close> for a response that is not ok.
\<close>

definition postFormJson_try :: "engine \<Rightarrow> nat \<Rightarrow> string \<Rightarrow> jsval + jsval" where
  "postFormJson_try E st text =
     (case (if text \<noteq> [] then JSON_parse E text else Inr (JObj [])) of
        Inl m \<Rightarrow> Inl (js_Error m)
      | Inr json \<Rightarrow>
          if \<not> ok st
          then Inl (JObj [(''status'', JNum (show_nat st)), (''body'', json), (''text'', JStr text)])
          else Inr json)"

text \<open>
  The whole of \<open>postFormJson\<close> once \<open>fetch\<close> has settled: the \<open>catch\<close> clause receives
  whatever the \<open>try\<close> block threw.
\<close>

definition postFormJson_settle :: "engine \<Rightarrow> reply \<Rightarrow> jsval + jsval" where
  "postFormJson_settle E r =
     (case r of
        NetworkError m \<Rightarrow> Inl (js_Error m)
      | Response st text \<Rightarrow>
          (case postFormJson_try E st text of
             Inr json \<Rightarrow> Inr json
           | Inl err \<Rightarrow>
               if \<not> ok st
               then Inl (JObj [(''status'', JNum (show_nat st)), (''text'', JStr text)])
               else Inr (JStr text)))"

text \<open>
  \<open>postFormJson(path, form)\<close>: the request it hands to \<open>fetch\<close> and what it returns or
  throws. \<open>api_url\<close> is the \<open>API_URL\<close> exported by config.js, \<open>net\<close> the server's answer to
  a request.
\<close>

definition postFormJson ::
  "engine \<Rightarrow> string \<Rightarrow> (request \<Rightarrow> reply) \<Rightarrow> string \<Rightarrow> formdata \<Rightarrow> request \<times> (jsval + jsval)" where
  "postFormJson E api_url net path form =
     (let req = \<lparr> url = api_url @ path, http_method = ''POST'', body = form \<rparr>
      in (req, postFormJson_settle E (net req)))"

definition initiateSession ::
  "engine \<Rightarrow> string \<Rightarrow> (request \<Rightarrow> reply) \<Rightarrow> string \<Rightarrow> string \<Rightarrow> bool \<Rightarrow> request \<times> (jsval + jsval)" where
  "initiateSession E api_url net user_id peer_id simulate_eavesdropper =
     postFormJson E api_url net ''/api/v1/session/initiate''
       [(''user_id'', Text user_id),
        (''peer_id'', Text peer_id),
        (''simulate_eavesdropper'', Text (if simulate_eavesdropper then ''true'' else ''false''))]"

definition encryptFile ::
  "engine \<Rightarrow> string \<Rightarrow> (request \<Rightarrow> reply) \<Rightarrow> string \<Rightarrow> string \<Rightarrow> jsfile \<Rightarrow> request \<times> (jsval + jsval)" where
  "encryptFile E api_url net user_id peer_id f =
     postFormJson E api_url net ''/api/v1/encrypt-file''
       [(''user_id'', Text user_id),
        (''peer_id'', Text peer_id),
        (''file'', Blob f (file_name f))]"

definition decryptFilePreview ::
  "engine \<Rightarrow> string \<Rightarrow> (request \<Rightarrow> reply) \<Rightarrow> string \<Rightarrow> string \<Rightarrow> string \<Rightarrow> string \<Rightarrow> string
     \<Rightarrow> request \<times> (jsval + jsval)" where
  "decryptFilePreview E api_url net user_id peer_id nonce tag ciphertext =
     postFormJson E api_url net ''/api/v1/decrypt-file-preview''
       [(''user_id'', Text user_id),
        (''peer_id'', Text peer_id),
        (''nonce'', Text nonce),
        (''tag'', Text tag),
        (''ciphertext'', Text ciphertext)]"

section \<open>App: state and handlers\<close>

record app =
  currentUser :: string
  peerUser :: string
  isLoading :: bool
  processStatus :: pipelines
  cryptoComponents :: jsval
  decryptedPreview :: jsval

text \<open>The text fields of the Decryptor card, handed to \<open>onDecryptPreview\<close>.\<close>

record components =
  nonce :: string
  tag :: string
  ciphertext :: string

definition initial_app :: app where
  "initial_app =
     \<lparr> currentUser = ''Alice'', peerUser = ''Bob'', isLoading = False,
       processStatus = INITIAL_PROCESS_STATUS,
       cryptoComponents = JObj [(''nonce'', JStr []), (''tag'', JStr []), (''ciphertext'', JStr [])],
       decryptedPreview = JStr [] \<rparr>"

text \<open>\<open>{ status: st, type: st, message: msg }\<close>\<close>

definition proc :: "status \<Rightarrow> jsval \<Rightarrow> process" where
  "proc st msg = \<lparr> status = st, type = Some st, message = msg \<rparr>"

definition resetStatus :: "string \<Rightarrow> app \<Rightarrow> app" where
  "resetStatus currentProcess s =
     (let prev = processStatus s;
          next0 = INITIAL_PROCESS_STATUS;
          next1 = (if currentProcess \<noteq> ''session'' \<and> status (session prev) = Success
                   then next0 \<lparr> session := proc Success (JStr ''Session active'') \<rparr>
                   else next0);
          next2 = (if currentProcess \<noteq> ''session'' \<and> currentProcess \<noteq> ''encrypt''
                      \<and> status (encrypt prev) = Success
                   then next1 \<lparr> encrypt := proc Success (JStr ''Encryption complete'') \<rparr>
                   else next1);
          next3 = (if currentProcess = ''session'' then INITIAL_PROCESS_STATUS else next2)
      in s \<lparr> decryptedPreview := JStr [], processStatus := next3 \<rparr>)"

text \<open>
  What a handler does, in order: a state update that React renders, a pause
  (\<open>await sleep(ms)\<close>), a request handed to \<open>fetch\<close>.
\<close>

datatype event = Update app | Wait nat | Issue request

subsection \<open>The handlers that call api.js\<close>

text \<open>The state written by the same-identity guard of \<open>handleGenerateKey\<close>.\<close>

definition same_user_state :: "app \<Rightarrow> app" where
  "same_user_state s =
     s \<lparr> processStatus :=
           INITIAL_PROCESS_STATUS
             \<lparr> session := proc Error (JStr ''User and Peer cannot be the same.'') \<rparr>,
         decryptedPreview := JStr [] \<rparr>"

text \<open>The synchronous part of \<open>handleGenerateKey\<close>, up to \<open>await sleep(1500)\<close>.\<close>

definition handleGenerateKey_begin :: "app \<Rightarrow> app" where
  "handleGenerateKey_begin s =
     (let s1 = s \<lparr> isLoading := True \<rparr>;
          s2 = resetStatus ''session'' s1
      in s2 \<lparr> processStatus :=
                (processStatus s2)
                  \<lparr> session := proc Loading (JStr ''Establishing secure session... (QKD running)'') \<rparr> \<rparr>)"

text \<open>
  The rest of \<open>handleGenerateKey\<close>, run on the state of that moment with the outcome of
  \<open>initiateSession\<close>.
\<close>

definition handleGenerateKey_settle :: "jsval + jsval \<Rightarrow> app \<Rightarrow> app" where
  "handleGenerateKey_settle res s =
     (case res of
        Inr data \<Rightarrow>
          s \<lparr> processStatus :=
                INITIAL_PROCESS_STATUS
                  \<lparr> session := proc Success (JStr ''Secure session established!'') \<rparr>,
              isLoading := False \<rparr>
      | Inl err \<Rightarrow>
          (let body_detail = guarded_prop (guarded_prop err ''body'') ''detail'';
               (statusToSet, detailMessage) =
                 (if truthy err \<and> get_prop err ''status'' = Some (JNum ''403'')
                  then (Eavesdropper, js_or body_detail (JStr ''Attack detected. Session terminated.''))
                  else if truthy body_detail then (Error, body_detail)
                  else if truthy (guarded_prop err ''text'') then (Error, guarded_prop err ''text'')
                  else if truthy (guarded_prop err ''message'') then (Error, guarded_prop err ''message'')
                  else (Error, JStr ''Key establishment failed.''))
           in s \<lparr> processStatus :=
                     INITIAL_PROCESS_STATUS \<lparr> session := proc statusToSet detailMessage \<rparr>,
                   decryptedPreview := JStr [],
                   isLoading := False \<rparr>))"

definition handleGenerateKey ::
  "engine \<Rightarrow> string \<Rightarrow> (request \<Rightarrow> reply) \<Rightarrow> bool \<Rightarrow> app \<Rightarrow> event list" where
  "handleGenerateKey E api_url net simulateEavesdropper s =
     (if currentUser s = peerUser s then [Update (same_user_state s)]
      else
        let s1 = handleGenerateKey_begin s;
            (req, res) = initiateSession E api_url net (currentUser s) (peerUser s) simulateEavesdropper
        in [Update s1, Wait 1500, Issue req, Update (handleGenerateKey_settle res s1)])"

text \<open>The message chosen by the \<open>catch\<close> clauses of \<open>handleEncrypt\<close> and \<open>handleDecryptPreview\<close>.\<close>

definition caught_message :: "string \<Rightarrow> jsval \<Rightarrow> jsval" where
  "caught_message fallback err =
     (let body_detail = guarded_prop (guarded_prop err ''body'') ''detail''
      in if truthy body_detail then body_detail
         else if truthy (guarded_prop err ''text'') then guarded_prop err ''text''
         else if truthy (guarded_prop err ''message'')
              then js_or (guarded_prop err ''message'') (JStr fallback)
         else JStr fallback)"

definition handleEncrypt_begin :: "app \<Rightarrow> app" where
  "handleEncrypt_begin s =
     (let s1 = s \<lparr> isLoading := True \<rparr>;
          s2 = resetStatus ''encrypt'' s1;
          s3 = s2 \<lparr> processStatus :=
                     (processStatus s2) \<lparr> encrypt := proc Loading (JStr ''Encrypting file...'') \<rparr> \<rparr>
      in s3 \<lparr> cryptoComponents :=
                JObj [(''nonce'', JStr []), (''tag'', JStr []), (''ciphertext'', JStr [])] \<rparr>)"

definition handleEncrypt_settle :: "jsval + jsval \<Rightarrow> app \<Rightarrow> app" where
  "handleEncrypt_settle res s =
     (case res of
        Inr data \<Rightarrow>
          s \<lparr> cryptoComponents := data,
              processStatus :=
                (processStatus s)
                  \<lparr> encrypt := proc Success (JStr ''File encrypted. Components ready.'') \<rparr>,
              isLoading := False \<rparr>
      | Inl err \<Rightarrow>
          s \<lparr> processStatus :=
                (processStatus s)
                  \<lparr> encrypt := proc Error (caught_message ''Encryption failed.'' err) \<rparr>,
              isLoading := False \<rparr>)"

definition handleEncrypt ::
  "engine \<Rightarrow> string \<Rightarrow> (request \<Rightarrow> reply) \<Rightarrow> jsfile \<Rightarrow> app \<Rightarrow> event list" where
  "handleEncrypt E api_url net f s =
     (let s1 = handleEncrypt_begin s;
          (req, res) = encryptFile E api_url net (currentUser s) (peerUser s) f
      in [Update s1, Wait 1000, Issue req, Update (handleEncrypt_settle res s1)])"

definition handleDecryptPreview_begin :: "app \<Rightarrow> app" where
  "handleDecryptPreview_begin s =
     (let s1 = s \<lparr> isLoading := True \<rparr>;
          s2 = resetStatus ''decrypt'' s1
      in s2 \<lparr> processStatus :=
                (processStatus s2) \<lparr> decrypt := proc Loading (JStr ''Decrypting preview...'') \<rparr> \<rparr>)"

text \<open>The \<open>catch\<close> clause of \<open>handleDecryptPreview\<close>, then \<open>finally\<close>.\<close>

definition handleDecryptPreview_catch :: "jsval \<Rightarrow> app \<Rightarrow> app" where
  "handleDecryptPreview_catch err s =
     (let detailMessage = caught_message ''Decryption failed.'' err
      in s \<lparr> processStatus := (processStatus s) \<lparr> decrypt := proc Error detailMessage \<rparr>,
             decryptedPreview := JStr (''Error: '' @ ToString detailMessage),
             isLoading := False \<rparr>)"

definition handleDecryptPreview_settle :: "engine \<Rightarrow> jsval + jsval \<Rightarrow> app \<Rightarrow> app" where
  "handleDecryptPreview_settle E res s =
     (case res of
        Inr data \<Rightarrow>
          (case get_prop data ''plaintext'' of
             None \<Rightarrow> handleDecryptPreview_catch (js_Error (TypeError_message E ''plaintext'')) s
           | Some plaintext \<Rightarrow>
               s \<lparr> decryptedPreview := js_or plaintext (JStr []),
                   processStatus :=
                     (processStatus s)
                       \<lparr> decrypt := proc Success (JStr ''Decryption preview successful.'') \<rparr>,
                   isLoading := False \<rparr>)
      | Inl err \<Rightarrow> handleDecryptPreview_catch err s)"

definition handleDecryptPreview ::
  "engine \<Rightarrow> string \<Rightarrow> (request \<Rightarrow> reply) \<Rightarrow> components \<Rightarrow> app \<Rightarrow> event list" where
  "handleDecryptPreview E api_url net cs s =
     (let s1 = handleDecryptPreview_begin s;
          (req, res) = decryptFilePreview E api_url net (currentUser s) (peerUser s)
                         (nonce cs) (tag cs) (ciphertext cs)
      in [Update s1, Wait 1000, Issue req, Update (handleDecryptPreview_settle E res s1)])"

subsection \<open>The earlier handlers, which call fetch themselves\<close>

text \<open>
  The first version of the App differs from the second in the asynchronous part only: the
  guard, \<open>resetStatus\<close> and the synchronous part of each handler are the same text.
\<close>

definition API_BASE_URL :: string where
  "API_BASE_URL = ''http://localhost:8000/api/v1''"

text \<open>
  \<open>try { const errorData = await response.json(); detailMessage = errorData.detail || detailMessage; } catch (e) {}\<close>
\<close>

definition error_detail :: "engine \<Rightarrow> string \<Rightarrow> jsval \<Rightarrow> jsval" where
  "error_detail E text detailMessage =
     (case JSON_parse E text of
        Inl m \<Rightarrow> detailMessage
      | Inr errorData \<Rightarrow>
          (case get_prop errorData ''detail'' of
             None \<Rightarrow> detailMessage
           | Some d \<Rightarrow> js_or d detailMessage))"

definition network_error_state :: "app \<Rightarrow> app" where
  "network_error_state s =
     s \<lparr> processStatus :=
           INITIAL_PROCESS_STATUS
             \<lparr> session := proc Error (JStr ''Network error: Could not connect to server.'') \<rparr>,
         decryptedPreview := JStr [],
         isLoading := False \<rparr>"

definition handleGenerateKey_direct_settle :: "engine \<Rightarrow> reply \<Rightarrow> app \<Rightarrow> app" where
  "handleGenerateKey_direct_settle E r s =
     (case r of
        NetworkError m \<Rightarrow> network_error_state s
      | Response st text \<Rightarrow>
          if \<not> ok st
          then
            (let (statusToSet, detailMessage0) =
                   (if st = 403 then (Eavesdropper, JStr ''Attack detected. Session terminated.'')
                    else (Error, JStr (''Request failed: '' @ show_nat st)));
                 detailMessage = error_detail E text detailMessage0
             in s \<lparr> processStatus :=
                       INITIAL_PROCESS_STATUS \<lparr> session := proc statusToSet detailMessage \<rparr>,
                     decryptedPreview := JStr [],
                     isLoading := False \<rparr>)
          else
            (case JSON_parse E text of
               Inl m \<Rightarrow> network_error_state s
             | Inr data \<Rightarrow>
                 s \<lparr> processStatus :=
                       INITIAL_PROCESS_STATUS
                         \<lparr> session := proc Success (JStr ''Secure session established!'') \<rparr>,
                     isLoading := False \<rparr>))"

definition handleGenerateKey_direct ::
  "engine \<Rightarrow> (request \<Rightarrow> reply) \<Rightarrow> bool \<Rightarrow> app \<Rightarrow> event list" where
  "handleGenerateKey_direct E net simulateEavesdropper s =
     (if currentUser s = peerUser s then [Update (same_user_state s)]
      else
        let s1 = handleGenerateKey_begin s;
            req = \<lparr> url = API_BASE_URL @ ''/session/initiate'', http_method = ''POST'',
                    body = [(''user_id'', Text (currentUser s)),
                            (''peer_id'', Text (peerUser s)),
                            (''simulate_eavesdropper'', Text (ToString (JBool simulateEavesdropper)))] \<rparr>
        in [Update s1, Wait 1500, Issue req, Update (handleGenerateKey_direct_settle E (net req) s1)])"

text \<open>
  The \<open>try\<close> block of the first \<open>handleEncrypt\<close>: \<open>Inl\<close> is the \<open>message\<close> of the error
  thrown in it, \<open>Inr\<close> the parsed body.
\<close>

definition handleEncrypt_direct_try :: "engine \<Rightarrow> reply \<Rightarrow> string + jsval" where
  "handleEncrypt_direct_try E r =
     (case r of
        NetworkError m \<Rightarrow> Inl m
      | Response st text \<Rightarrow>
          if \<not> ok st
          then Inl (ToString (error_detail E text (JStr (''Encryption failed: '' @ show_nat st))))
          else (case JSON_parse E text of Inl m \<Rightarrow> Inl m | Inr data \<Rightarrow> Inr data))"

definition handleEncrypt_direct_settle :: "engine \<Rightarrow> reply \<Rightarrow> app \<Rightarrow> app" where
  "handleEncrypt_direct_settle E r s =
     (case handleEncrypt_direct_try E r of
        Inr data \<Rightarrow>
          s \<lparr> cryptoComponents := data,
              processStatus :=
                (processStatus s)
                  \<lparr> encrypt := proc Success (JStr ''File encrypted. Components ready.'') \<rparr>,
              isLoading := False \<rparr>
      | Inl m \<Rightarrow>
          s \<lparr> processStatus := (processStatus s) \<lparr> encrypt := proc Error (JStr m) \<rparr>,
              isLoading := False \<rparr>)"

definition handleEncrypt_direct ::
  "engine \<Rightarrow> (request \<Rightarrow> reply) \<Rightarrow> jsfile \<Rightarrow> app \<Rightarrow> event list" where
  "handleEncrypt_direct E net f s =
     (let s1 = handleEncrypt_begin s;
          req = \<lparr> url = API_BASE_URL @ ''/encrypt-file'', http_method = ''POST'',
                  body = [(''user_id'', Text (currentUser s)),
                          (''peer_id'', Text (peerUser s)),
                          (''file'', Blob f (file_name f))] \<rparr>
      in [Update s1, Wait 1000, Issue req, Update (handleEncrypt_direct_settle E (net req) s1)])"

text \<open>
  The \<open>try\<close> block of the first \<open>handleDecryptPreview\<close>, up to the read of
  \<open>data.plaintext\<close>: \<open>Inl\<close> is the \<open>message\<close> of the error thrown in it.
\<close>

definition handleDecryptPreview_direct_try :: "engine \<Rightarrow> reply \<Rightarrow> string + jsval" where
  "handleDecryptPreview_direct_try E r =
     (case r of
        NetworkError m \<Rightarrow> Inl m
      | Response st text \<Rightarrow>
          if \<not> ok st
          then Inl (ToString (error_detail E text (JStr (''Decryption failed: '' @ show_nat st))))
          else
            (case JSON_parse E text of
               Inl m \<Rightarrow> Inl m
             | Inr data \<Rightarrow>
                 (case get_prop data ''plaintext'' of
                    None \<Rightarrow> Inl (TypeError_message E ''plaintext'')
                  | Some plaintext \<Rightarrow> Inr plaintext)))"

definition handleDecryptPreview_direct_settle :: "engine \<Rightarrow> reply \<Rightarrow> app \<Rightarrow> app" where
  "handleDecryptPreview_direct_settle E r s =
     (case handleDecryptPreview_direct_try E r of
        Inr plaintext \<Rightarrow>
          s \<lparr> decryptedPreview := plaintext,
              processStatus :=
                (processStatus s)
                  \<lparr> decrypt := proc Success (JStr ''Decryption preview successful.'') \<rparr>,
              isLoading := False \<rparr>
      | Inl m \<Rightarrow>
          s \<lparr> processStatus := (processStatus s) \<lparr> decrypt := proc Error (JStr m) \<rparr>,
              decryptedPreview := JStr (''Error: '' @ m),
              isLoading := False \<rparr>)"

definition handleDecryptPreview_direct ::
  "engine \<Rightarrow> (request \<Rightarrow> reply) \<Rightarrow> components \<Rightarrow> app \<Rightarrow> event list" where
  "handleDecryptPreview_direct E net cs s =
     (let s1 = handleDecryptPreview_begin s;
          req = \<lparr> url = API_BASE_URL @ ''/decrypt-file-preview'', http_method = ''POST'',
                  body = [(''user_id'', Text (currentUser s)),
                          (''peer_id'', Text (peerUser s)),
                          (''nonce'', Text (nonce cs)),
                          (''tag'', Text (tag cs)),
                          (''ciphertext'', Text (ciphertext cs))] \<rparr>
      in [Update s1, Wait 1000, Issue req, Update (handleDecryptPreview_direct_settle E (net req) s1)])"

subsection \<open>Reading a handler's trace\<close>


fun requests :: "event list \<Rightarrow> request list" where
  "requests [] = []"
| "requests (Issue r # es) = r # requests es"
| "requests (e # es) = requests es"

fun updates :: "event list \<Rightarrow> app list" where
  "updates [] = []"
| "updates (Update s # es) = s # updates es"
| "updates (e # es) = updates es"

text \<open>The state updates that follow the first request.\<close>

fun updates_after_request :: "event list \<Rightarrow> app list" where
  "updates_after_request [] = []"
| "updates_after_request (Issue r # es) = updates es"
| "updates_after_request (e # es) = updates_after_request es"


section \<open>The cards: which controls respond\<close>

text \<open>App: the two flags handed to the cards as \<open>isDisabled={!flag}\<close>.\<close>

definition isSessionReady :: "app \<Rightarrow> bool" where
  "isSessionReady s \<longleftrightarrow> status (session (processStatus s)) = Success"

definition isEncryptReady :: "app \<Rightarrow> bool" where
  "isEncryptReady s \<longleftrightarrow> status (encrypt (processStatus s)) = Success"

text \<open>Button: \<open>disabled={disabled || isLoading}\<close> on the button element.\<close>

definition Button_disabled :: "bool \<Rightarrow> bool \<Rightarrow> bool" where
  "Button_disabled disabled isLoadingProp \<longleftrightarrow> disabled \<or> isLoadingProp"

text \<open>
  AnimatedCard: with \<open>isDisabled\<close> the card carries the class \<open>pointer-events-none\<close>, so
  nothing inside it receives a click.
\<close>

definition AnimatedCard_pointer_events_none :: "bool \<Rightarrow> bool" where
  "AnimatedCard_pointer_events_none isDisabled \<longleftrightarrow> isDisabled"

text \<open>What one card renders, as far as interaction goes.\<close>

record card_view =
  pointer_events_none :: bool
  inputs_disabled :: bool
  buttons_disabled :: "bool list"

text \<open>Encryptor, given the file selected in it: the file input and the Encrypt button.\<close>

definition Encryptor :: "app \<Rightarrow> jsfile option \<Rightarrow> card_view" where
  "Encryptor s selectedFile =
     (let isDisabled = \<not> isSessionReady s
      in \<lparr> pointer_events_none = AnimatedCard_pointer_events_none isDisabled,
           inputs_disabled = isDisabled,
           buttons_disabled =
             [Button_disabled (selectedFile = None \<or> isLoading s)
                (isLoading s \<and> status (encrypt (processStatus s)) = Loading)] \<rparr>)"

text \<open>Decryptor: the three text inputs, the Preview button and the Download button.\<close>

definition Decryptor :: "app \<Rightarrow> card_view" where
  "Decryptor s =
     (let isDisabled = \<not> isEncryptReady s
      in \<lparr> pointer_events_none = AnimatedCard_pointer_events_none isDisabled,
           inputs_disabled = isDisabled,
           buttons_disabled =
             [Button_disabled (isLoading s)
                (isLoading s \<and> status (decrypt (processStatus s)) = Loading),
              Button_disabled (isLoading s) False] \<rparr>)"

text \<open>
  A pointer click reaches the \<open>i\<close>-th button of a card and runs its \<open>onClick\<close>: the card
  takes pointer events and the button element is not disabled.
\<close>

definition click_runs :: "card_view \<Rightarrow> nat \<Rightarrow> bool" where
  "click_runs v i \<longleftrightarrow>
     i < length (buttons_disabled v) \<and> \<not> pointer_events_none v \<and> \<not> buttons_disabled v ! i"

text \<open>
  The \<open>i\<close>-th button of a card runs its \<open>onClick\<close> from the keyboard (focus, then Enter or
  Space). Only the \<open>disabled\<close> attribute of the button element decides this: the class
  \<open>pointer-events-none\<close> of the card concerns the pointer alone, and no button is handed
  the card's \<open>isDisabled\<close>.
\<close>

definition keyboard_runs :: "card_view \<Rightarrow> nat \<Rightarrow> bool" where
  "keyboard_runs v i \<longleftrightarrow> i < length (buttons_disabled v) \<and> \<not> buttons_disabled v ! i"

text \<open>The operation behind the \<open>i\<close>-th button of a card can be started, one way or the other.\<close>

definition can_start :: "card_view \<Rightarrow> nat \<Rightarrow> bool" where
  "can_start v i \<longleftrightarrow> click_runs v i \<or> keyboard_runs v i"

section \<open>Fixtures\<close>

text \<open>The response bodies used in the examples below.\<close>

definition eve_body :: string where
  \<open>eve_body = ''{"detail":"Eve detected"}''\<close>

definition empty_detail_body :: string where
  \<open>empty_detail_body = ''{"detail":""}''\<close>

definition hello_body :: string where
  \<open>hello_body = ''{"plaintext":"hello"}''\<close>

definition triple_body :: string where
  \<open>triple_body = ''{"nonce":"n1","tag":"t1","ciphertext":"c1"}''\<close>

definition sample_bodies :: "(string \<times> jsval) list" where
  "sample_bodies =
     [(eve_body, JObj [(''detail'', JStr ''Eve detected'')]),
      (empty_detail_body, JObj [(''detail'', JStr [])]),
      (hello_body, JObj [(''plaintext'', JStr ''hello'')]),
      (triple_body,
         JObj [(''nonce'', JStr ''n1''), (''tag'', JStr ''t1''), (''ciphertext'', JStr ''c1'')]),
      (''{}'', JObj [])]"

text \<open>
  A stand-in for the engine on these bodies; any other text is rejected, as the parser
  rejects malformed JSON.
\<close>

definition sample_engine :: engine where
  "sample_engine =
     \<lparr> JSON_parse = (\<lambda>t. case map_of sample_bodies t of
                               Some v \<Rightarrow> Inr v
                             | None \<Rightarrow> Inl ''Unexpected token''),
       TypeError_message = (\<lambda>k. ''Cannot read properties of null (reading '' @ k @ '')'') \<rparr>"

text \<open>A server that answers every request with the same reply.\<close>

definition always :: "reply \<Rightarrow> request \<Rightarrow> reply" where
  "always r req = r"

text \<open>The empty text fields of the Decryptor card as first rendered.\<close>

definition empty_components :: components where
  "empty_components = \<lparr> nonce = [], tag = [], ciphertext = [] \<rparr>"

text \<open>A state in which the session and the encryption have both succeeded.\<close>

definition ready_app :: app where
  "ready_app =
     initial_app
       \<lparr> processStatus :=
           INITIAL_PROCESS_STATUS
             \<lparr> session := proc Success (JStr ''Secure session established!''),
               encrypt := proc Success (JStr ''File encrypted. Components ready.'') \<rparr> \<rparr>"

section \<open>Properties of the base URL\<close>

lemma dropWhile_replicate_append:
  "P x \<Longrightarrow> dropWhile P (replicate n x @ ys) = dropWhile P ys"
  by (induction n) simp_all

lemma strip_trailing_slashes_root:
  assumes "r = [] \<or> last r \<noteq> CHR ''/''"
  shows "strip_trailing_slashes (r @ replicate n (CHR ''/'')) = r"
proof (cases r rule: rev_cases)
  case Nil
  then show ?thesis
    using dropWhile_replicate_append [of "\<lambda>c. c = CHR ''/''" "CHR ''/''" n "[]"]
    by (simp add: strip_trailing_slashes_def)
next
  case (snoc ys y)
  with assms have "y \<noteq> CHR ''/''" by simp
  then have "dropWhile (\<lambda>c. c = CHR ''/'') (rev r) = rev r"
    using snoc by simp
  then show ?thesis
    using dropWhile_replicate_append [of "\<lambda>c. c = CHR ''/''" "CHR ''/''" n "rev r"]
    by (simp add: strip_trailing_slashes_def)
qed

lemma api_v1_pattern_length:
  assumes "map upper_of p = map upper_of ''/api/v1''"
  shows "length p = 7"
proof -
  from assms have "length (map upper_of p) = length (map upper_of ''/api/v1'')"
    by (rule arg_cong)
  then show ?thesis by simp
qed

lemma api_v1_pattern_last:
  assumes "map upper_of p = map upper_of ''/api/v1''"
  shows "p \<noteq> [] \<and> last p \<noteq> CHR ''/''"
proof -
  from assms obtain a b c d e f g where p: "p = [a, b, c, d, e, f, g]"
    by (auto simp: map_eq_Cons_conv)
  with assms have "upper_of g = upper_of (CHR ''1'')" by simp
  then have "g \<noteq> CHR ''/''" by (auto simp: upper_of_def)
  with p show ?thesis by simp
qed

lemma strip_trailing_slashes_suffix:
  assumes "map upper_of p = map upper_of ''/api/v1''"
  shows "strip_trailing_slashes (r @ p @ replicate n (CHR ''/'')) = r @ p"
proof -
  from api_v1_pattern_last [OF assms] have "last (r @ p) \<noteq> CHR ''/''" by simp
  then show ?thesis
    using strip_trailing_slashes_root [of "r @ p" n] by simp
qed

text \<open>
  C6 (as amended). On every intended input, a canonical root followed by at most one
  \<open>/api/v1\<close> segment in any letter case and then any number of slashes, the normalization
  returns the root, and a second application changes nothing.
\<close>

theorem normalize_idempotent_on_roots:
  assumes "canonical_root r"
    and "x = r @ replicate n (CHR ''/'')
         \<or> (map upper_of p = map upper_of ''/api/v1'' \<and> x = r @ p @ replicate n (CHR ''/''))"
  shows "normalize_url x = r \<and> normalize_url (normalize_url x) = normalize_url x"
proof -
  from assms(1) have r1: "r = [] \<or> last r \<noteq> CHR ''/''" and r2: "\<not> ends_with_api_v1 r"
    by (simp_all add: canonical_root_def)
  have fp: "normalize_url r = r"
    using strip_trailing_slashes_root [OF r1, of 0] r2
    by (simp add: normalize_url_def strip_api_v1_def)
  from assms(2) have "normalize_url x = r"
  proof
    assume "x = r @ replicate n (CHR ''/'')"
    then show ?thesis
      using strip_trailing_slashes_root [OF r1, of n] r2
      by (simp add: normalize_url_def strip_api_v1_def)
  next
    assume a: "map upper_of p = map upper_of ''/api/v1'' \<and> x = r @ p @ replicate n (CHR ''/'')"
    then have len: "length p = 7"
      by (simp add: api_v1_pattern_length)
    from a have s: "strip_trailing_slashes x = r @ p"
      using strip_trailing_slashes_suffix [of p r n] by simp
    have "ends_with_api_v1 (r @ p)"
      using a len by (simp add: ends_with_api_v1_def)
    then show ?thesis
      using s len by (simp add: normalize_url_def strip_api_v1_def)
  qed
  with fp show ?thesis by simp
qed

theorem normalize_idempotent_on_roots_witness:
  "canonical_root ''http://localhost:8000''
   \<and> normalize_url ''http://localhost:8000/API/v1//'' = ''http://localhost:8000''
   \<and> normalize_url (normalize_url ''http://localhost:8000/API/v1//'')
       = normalize_url ''http://localhost:8000/API/v1//''"
proof -
  have c: "canonical_root ''http://localhost:8000''"
    by (simp add: canonical_root_def ends_with_api_v1_def upper_of_def)
  have p: "map upper_of ''/API/v1'' = map upper_of ''/api/v1''"
    by (simp add: upper_of_def)
  have x: "''http://localhost:8000/API/v1//''
           = ''http://localhost:8000'' @ ''/API/v1'' @ replicate 2 (CHR ''/'')"
    by (simp add: numeral_2_eq_2)
  from normalize_idempotent_on_roots [OF c, of "''http://localhost:8000/API/v1//''" 2 "''/API/v1''"]
    p x c
  show ?thesis by blast
qed

text \<open>
  C6 (as stated) fails: a root with the prefix segment twice loses one segment per
  application, so the second application still changes the result of the first.
\<close>

theorem normalize_not_idempotent:
  "normalize_url ''http://localhost:8000/api/v1/api/v1'' = ''http://localhost:8000/api/v1''
   \<and> normalize_url (normalize_url ''http://localhost:8000/api/v1/api/v1'') = ''http://localhost:8000''"
  by (simp add: normalize_url_def strip_api_v1_def strip_trailing_slashes_def
      ends_with_api_v1_def upper_of_def)

section \<open>Properties of the headline status\<close>

text \<open>
  C7. For every triple of pipeline records the headline computed by \<open>getConnectionStatus\<close>
  and the message computed by \<open>getTopMessage\<close> follow the priority rule: an eavesdropper
  status of the session first, then the first error, then the first loading record, each
  searched in the one order decrypt, encrypt, session, and the success display last.
\<close>

theorem headline_priority:
  "getConnectionStatus ps = headline_by_priority ps
   \<and> getTopMessage ps = top_message_by_priority ps
   \<and> status (getConnectionStatus ps) = headline_rank ps"
  by (simp add: getConnectionStatus_def headline_by_priority_def getTopMessage_def
      top_message_by_priority_def headline_rank_def first_with_def scan_order_def Let_def)

text \<open>
  The summary built for an error has no \<open>type\<close>, so the connection drawing, which reads
  \<open>type\<close>, falls back to the idle look while the status of the summary is error.
\<close>

lemma error_summary_drawn_as_idle:
  assumes "status (session ps) \<noteq> Eavesdropper"
    and "status (decrypt ps) = Error \<or> status (encrypt ps) = Error \<or> status (session ps) = Error"
  shows "status (getConnectionStatus ps) = Error
       \<and> ConnectionVisual_type (getConnectionStatus ps) = Idle"
  using assms by (auto simp: getConnectionStatus_def ConnectionVisual_type_def Let_def)

section \<open>Decimal text of status codes\<close>

lemma digit_char_inj:
  assumes "digit_char a = digit_char b"
  shows "a mod 10 = b mod 10"
proof -
  have d: "(of_char (digit_char k) :: nat) = 48 + k mod 10" for k
  proof -
    have "48 + k mod 10 < 256" by (rule less_trans [of _ 58]) simp_all
    then show ?thesis by (simp add: digit_char_def)
  qed
  from assms have "(of_char (digit_char a) :: nat) = of_char (digit_char b)" by simp
  then show ?thesis by (simp add: d)
qed

lemma show_nat_nonempty: "show_nat k \<noteq> []"
  by (subst show_nat.simps) simp

lemma show_nat_small: "n < 10 \<Longrightarrow> show_nat n = [digit_char n]"
  by (subst show_nat.simps) simp

lemma show_nat_large: "\<not> n < 10 \<Longrightarrow> show_nat n = show_nat (n div 10) @ [digit_char n]"
  by (subst show_nat.simps) simp

lemma show_nat_inj: "show_nat a = show_nat b \<Longrightarrow> a = b"
proof (induction a arbitrary: b rule: show_nat.induct)
  case (1 n)
  show ?case
  proof (cases "n < 10")
    case True
    note n = show_nat_small [OF True]
    show ?thesis
    proof (cases "b < 10")
      case b: True
      from "1.prems" have "[digit_char n] = [digit_char b]"
        by (simp only: n show_nat_small [OF b])
      then have "digit_char n = digit_char b" by simp
      then have "n mod 10 = b mod 10" by (rule digit_char_inj)
      with True b show ?thesis by simp
    next
      case b: False
      from "1.prems" have "[digit_char n] = show_nat (b div 10) @ [digit_char b]"
        by (simp only: n show_nat_large [OF b])
      then have "show_nat (b div 10) = []" by simp
      with show_nat_nonempty show ?thesis by blast
    qed
  next
    case False
    note n = show_nat_large [OF False]
    show ?thesis
    proof (cases "b < 10")
      case b: True
      from "1.prems" have "show_nat (n div 10) @ [digit_char n] = [digit_char b]"
        by (simp only: n show_nat_small [OF b])
      then have "show_nat (n div 10) = []" by simp
      with show_nat_nonempty show ?thesis by blast
    next
      case b: False
      from "1.prems"
      have "show_nat (n div 10) @ [digit_char n] = show_nat (b div 10) @ [digit_char b]"
        by (simp only: n show_nat_large [OF b])
      then have e: "show_nat (n div 10) = show_nat (b div 10)"
        and d: "digit_char n = digit_char b"
        by simp_all
      from "1.IH" [OF False e] have q: "n div 10 = b div 10" .
      from d have r: "n mod 10 = b mod 10" by (rule digit_char_inj)
      have "n = n div 10 * 10 + n mod 10" by simp
      also have "\<dots> = b div 10 * 10 + b mod 10" by (simp only: q r)
      also have "\<dots> = b" by simp
      finally show ?thesis .
    qed
  qed
qed

lemma show_nat_403: "show_nat st = ''403'' \<longleftrightarrow> st = 403"
proof -
  have "show_nat 403 = ''403''" by code_simp
  then show ?thesis using show_nat_inj [of st 403] by auto
qed

lemma show_nat_500: "show_nat 500 = ''500''"
  by code_simp

lemma show_nat_400: "show_nat 400 = ''400''"
  by code_simp

lemma not_ok_403: "\<not> ok 403"
  by (simp add: ok_def)

lemma sample_parse:
  "JSON_parse sample_engine eve_body = Inr (JObj [(''detail'', JStr ''Eve detected'')])"
  "JSON_parse sample_engine empty_detail_body = Inr (JObj [(''detail'', JStr [])])"
  "JSON_parse sample_engine hello_body = Inr (JObj [(''plaintext'', JStr ''hello'')])"
  "JSON_parse sample_engine triple_body
     = Inr (JObj [(''nonce'', JStr ''n1''), (''tag'', JStr ''t1''), (''ciphertext'', JStr ''c1'')])"
  "JSON_parse sample_engine ''oops'' = Inl ''Unexpected token''"
  "JSON_parse sample_engine ''bad request'' = Inl ''Unexpected token''"
  by (simp_all add: sample_engine_def sample_bodies_def eve_body_def empty_detail_body_def
      hello_body_def triple_body_def)

section \<open>Properties of the request layer\<close>

lemma postFormJson_settle_not_ok:
  "\<not> ok st \<Longrightarrow>
     postFormJson_settle E (Response st text)
       = Inl (JObj [(''status'', JNum (show_nat st)), (''text'', JStr text)])"
  by (auto simp: postFormJson_settle_def postFormJson_try_def split: sum.splits)

lemma postFormJson_settle_failing:
  "r = NetworkError m0 \<or> (r = Response st text \<and> \<not> ok st) \<Longrightarrow>
     \<exists>err. postFormJson_settle E r = Inl err"
  by (auto simp: postFormJson_settle_def postFormJson_try_def split: sum.splits)

text \<open>
  C5 (as amended). For every response that \<open>postFormJson\<close> processes: when the status is
  2xx and the body is not valid JSON, the raw text is returned (the parsed value when it is
  valid, the empty object when the body is empty); when the status is not 2xx, the value thrown is an object whose \<open>status\<close>
  is the response status and whose \<open>text\<close> is the raw body, and it has no \<open>message\<close>
  property. A failure of the JSON parser itself never reaches the caller.
\<close>

theorem postFormJson_outcomes:
  "(ok st \<and> text \<noteq> [] \<and> JSON_parse E text = Inl m \<longrightarrow>
      postFormJson_settle E (Response st text) = Inr (JStr text))
   \<and> (ok st \<and> text \<noteq> [] \<and> JSON_parse E text = Inr json \<longrightarrow>
      postFormJson_settle E (Response st text) = Inr json)
   \<and> (ok st \<longrightarrow> postFormJson_settle E (Response st []) = Inr (JObj []))
   \<and> (\<not> ok st \<longrightarrow>
      (\<exists>err. postFormJson_settle E (Response st text) = Inl err
          \<and> get_prop err ''status'' = Some (JNum (show_nat st))
          \<and> get_prop err ''text'' = Some (JStr text)
          \<and> get_prop err ''message'' = Some JUndefined))"
  by (auto simp: postFormJson_settle_def postFormJson_try_def split: sum.splits)

theorem postFormJson_outcomes_witness:
  "ok 200 \<and> JSON_parse sample_engine ''oops'' = Inl ''Unexpected token''
   \<and> postFormJson_settle sample_engine (Response 200 ''oops'') = Inr (JStr ''oops'')
   \<and> JSON_parse sample_engine hello_body = Inr (JObj [(''plaintext'', JStr ''hello'')])
   \<and> postFormJson_settle sample_engine (Response 200 hello_body)
       = Inr (JObj [(''plaintext'', JStr ''hello'')])
   \<and> \<not> ok 403
   \<and> (\<exists>err. postFormJson_settle sample_engine (Response 403 eve_body) = Inl err
          \<and> get_prop err ''status'' = Some (JNum ''403'')
          \<and> get_prop err ''text'' = Some (JStr eve_body)
          \<and> get_prop err ''message'' = Some JUndefined)"
proof -
  have k: "ok 200" by (simp add: ok_def)
  have h: "hello_body \<noteq> []" by (simp add: hello_body_def)
  have s: "show_nat 403 = ''403''" by (simp add: show_nat_403)
  from postFormJson_outcomes [of 200 "''oops''" sample_engine "''Unexpected token''"]
    postFormJson_outcomes [of 200 hello_body sample_engine _ "JObj [(''plaintext'', JStr ''hello'')]"]
    postFormJson_outcomes [of 403 eve_body sample_engine]
    k h s not_ok_403 sample_parse
  show ?thesis by simp
qed

text \<open>
  C5 (as stated) fails: for a 500 response the object thrown has a \<open>status\<close> and a
  \<open>text\<close>, and reading its \<open>message\<close> gives \<open>undefined\<close>.
\<close>

theorem postFormJson_no_message_field:
  "postFormJson_settle sample_engine (Response 500 ''oops'')
     = Inl (JObj [(''status'', JNum ''500''), (''text'', JStr ''oops'')])
   \<and> get_prop (JObj [(''status'', JNum ''500''), (''text'', JStr ''oops'')]) ''message''
       = Some JUndefined"
  by (simp add: postFormJson_settle_def postFormJson_try_def ok_def sample_parse show_nat_500)

section \<open>Properties of session initiation\<close>

text \<open>
  C2 (as amended). A 403 response to session initiation always gives the session the status
  eavesdropper, and any other response that is not 2xx gives it the status error, in both
  versions of the handler. In the handler that calls \<open>fetch\<close> itself, for a 403 body
  \<open>{"detail": d}\<close> the message is \<open>d\<close> whenever \<open>d\<close> is truthy (a non-empty string, say),
  and the fixed text \<open>Attack detected. Session terminated.\<close> otherwise.
\<close>

theorem session_403_is_eavesdropper:
  "status (session (processStatus (handleGenerateKey_direct_settle E (Response 403 text) s)))
     = Eavesdropper
   \<and> status (session (processStatus
        (handleGenerateKey_settle (postFormJson_settle E (Response 403 text)) s))) = Eavesdropper
   \<and> (\<not> ok st \<and> st \<noteq> 403 \<longrightarrow>
        status (session (processStatus (handleGenerateKey_direct_settle E (Response st text) s)))
          = Error
        \<and> status (session (processStatus
             (handleGenerateKey_settle (postFormJson_settle E (Response st text)) s))) = Error)
   \<and> (JSON_parse E text = Inr (JObj [(''detail'', d)]) \<longrightarrow>
        message (session (processStatus (handleGenerateKey_direct_settle E (Response 403 text) s)))
          = (if truthy d then d else JStr ''Attack detected. Session terminated.''))"
proof (intro conjI impI)
  show "status (session (processStatus (handleGenerateKey_direct_settle E (Response 403 text) s)))
          = Eavesdropper"
    by (simp add: handleGenerateKey_direct_settle_def not_ok_403 proc_def Let_def)
  have "show_nat 403 = ''403''" by (simp add: show_nat_403)
  then show "status (session (processStatus
        (handleGenerateKey_settle (postFormJson_settle E (Response 403 text)) s))) = Eavesdropper"
    by (simp add: postFormJson_settle_not_ok [OF not_ok_403] handleGenerateKey_settle_def
        proc_def Let_def)
next
  assume a: "\<not> ok st \<and> st \<noteq> 403"
  then show "status (session (processStatus
               (handleGenerateKey_direct_settle E (Response st text) s))) = Error"
    by (simp add: handleGenerateKey_direct_settle_def proc_def Let_def)
  from a have "show_nat st \<noteq> ''403''" by (simp add: show_nat_403)
  with a show "status (session (processStatus
             (handleGenerateKey_settle (postFormJson_settle E (Response st text)) s))) = Error"
    by (simp add: postFormJson_settle_not_ok handleGenerateKey_settle_def proc_def Let_def)
next
  assume "JSON_parse E text = Inr (JObj [(''detail'', d)])"
  then show "message (session (processStatus
               (handleGenerateKey_direct_settle E (Response 403 text) s)))
          = (if truthy d then d else JStr ''Attack detected. Session terminated.'')"
    by (simp add: handleGenerateKey_direct_settle_def not_ok_403 proc_def Let_def
        error_detail_def js_or_def)
qed

theorem session_403_is_eavesdropper_witness:
  "\<not> ok 500 \<and> (500 :: nat) \<noteq> 403
   \<and> status (session (processStatus
        (handleGenerateKey_direct_settle sample_engine (Response 500 eve_body) initial_app))) = Error
   \<and> status (session (processStatus
        (handleGenerateKey_settle (postFormJson_settle sample_engine (Response 500 eve_body))
           initial_app))) = Error
   \<and> JSON_parse sample_engine eve_body = Inr (JObj [(''detail'', JStr ''Eve detected'')])
   \<and> status (session (processStatus
        (handleGenerateKey_direct_settle sample_engine (Response 403 eve_body) initial_app)))
       = Eavesdropper
   \<and> message (session (processStatus
        (handleGenerateKey_direct_settle sample_engine (Response 403 eve_body) initial_app)))
       = JStr ''Eve detected''"
proof -
  have k: "\<not> ok 500" by (simp add: ok_def)
  from session_403_is_eavesdropper
         [of sample_engine eve_body initial_app 500 "JStr ''Eve detected''"]
    k sample_parse
  show ?thesis by simp
qed

text \<open>
  C2 (as stated) fails: for the 403 body \<open>{"detail":""}\<close> the message is the fixed text, not
  the empty \<open>detail\<close>.
\<close>

theorem session_403_empty_detail:
  "JSON_parse sample_engine empty_detail_body = Inr (JObj [(''detail'', JStr [])])
   \<and> session (processStatus
        (handleGenerateKey_direct_settle sample_engine (Response 403 empty_detail_body) initial_app))
       = \<lparr> status = Eavesdropper, type = Some Eavesdropper,
           message = JStr ''Attack detected. Session terminated.'' \<rparr>"
  by (simp add: sample_parse handleGenerateKey_direct_settle_def not_ok_403 proc_def Let_def
      error_detail_def js_or_def)

text \<open>
  In the handler that goes through \<open>postFormJson\<close> the \<open>catch\<close> clause of that helper
  replaces the object carrying the parsed body, so the handler never sees a \<open>detail\<close>: the
  message for a 403 response is the fixed text whatever the body says.
\<close>

lemma helper_403_message_is_fixed:
  "message (session (processStatus
     (handleGenerateKey_settle (postFormJson_settle E (Response 403 text)) s)))
     = JStr ''Attack detected. Session terminated.''"
proof -
  have "show_nat 403 = ''403''" by (simp add: show_nat_403)
  then show ?thesis
    by (simp add: postFormJson_settle_not_ok [OF not_ok_403] handleGenerateKey_settle_def
        proc_def Let_def guarded_prop_def js_or_def)
qed

text \<open>
  C3. When the two identities are equal, either version of \<open>handleGenerateKey\<close> does one
  thing only: it writes the error record with the message
  \<open>User and Peer cannot be the same.\<close> to the session. No request is issued.
\<close>

theorem same_user_fails_locally:
  assumes "currentUser s = peerUser s"
  shows "handleGenerateKey E api_url net sim s = [Update (same_user_state s)]
       \<and> handleGenerateKey_direct E net sim s = [Update (same_user_state s)]
       \<and> requests (handleGenerateKey E api_url net sim s) = []
       \<and> requests (handleGenerateKey_direct E net sim s) = []
       \<and> session (processStatus (same_user_state s))
           = \<lparr> status = Error, type = Some Error,
               message = JStr ''User and Peer cannot be the same.'' \<rparr>"
  using assms
  by (simp add: handleGenerateKey_def handleGenerateKey_direct_def same_user_state_def proc_def)

theorem same_user_fails_locally_witness:
  "currentUser (initial_app \<lparr> peerUser := ''Alice'' \<rparr>)
     = peerUser (initial_app \<lparr> peerUser := ''Alice'' \<rparr>)
   \<and> requests (handleGenerateKey sample_engine ''http://localhost:8000''
                  (always (Response 200 ''{}'')) False (initial_app \<lparr> peerUser := ''Alice'' \<rparr>)) = []
   \<and> requests (handleGenerateKey_direct sample_engine
                  (always (Response 200 ''{}'')) False (initial_app \<lparr> peerUser := ''Alice'' \<rparr>)) = []
   \<and> session (processStatus (same_user_state (initial_app \<lparr> peerUser := ''Alice'' \<rparr>)))
       = \<lparr> status = Error, type = Some Error,
           message = JStr ''User and Peer cannot be the same.'' \<rparr>"
proof -
  have h: "currentUser (initial_app \<lparr> peerUser := ''Alice'' \<rparr>)
             = peerUser (initial_app \<lparr> peerUser := ''Alice'' \<rparr>)"
    by (simp add: initial_app_def)
  from same_user_fails_locally
         [OF h, of sample_engine "''http://localhost:8000''" "always (Response 200 ''{}'')" False]
    h
  show ?thesis by simp
qed

section \<open>Properties of the reset policy\<close>

text \<open>
  C4. \<open>resetStatus('session')\<close>, the first step of starting the session pipeline, puts all
  three pipelines back to their initial idle records and empties the decrypted preview,
  whatever the state was; once the session has been set to loading, encrypt and decrypt
  are still the initial records. \<open>resetStatus('encrypt')\<close>, the first step of starting the
  encrypt pipeline, puts encrypt and decrypt back to their initial idle records and leaves
  a success record on the session exactly when the session was successful before.
\<close>

theorem reset_policy:
  "processStatus (resetStatus ''session'' s) = INITIAL_PROCESS_STATUS
   \<and> decryptedPreview (resetStatus ''session'' s) = JStr []
   \<and> status (session INITIAL_PROCESS_STATUS) = Idle
   \<and> status (encrypt INITIAL_PROCESS_STATUS) = Idle
   \<and> status (decrypt INITIAL_PROCESS_STATUS) = Idle
   \<and> encrypt (processStatus (handleGenerateKey_begin s)) = encrypt INITIAL_PROCESS_STATUS
   \<and> decrypt (processStatus (handleGenerateKey_begin s)) = decrypt INITIAL_PROCESS_STATUS
   \<and> decryptedPreview (handleGenerateKey_begin s) = JStr []
   \<and> encrypt (processStatus (resetStatus ''encrypt'' s)) = encrypt INITIAL_PROCESS_STATUS
   \<and> decrypt (processStatus (resetStatus ''encrypt'' s)) = decrypt INITIAL_PROCESS_STATUS
   \<and> decryptedPreview (resetStatus ''encrypt'' s) = JStr []
   \<and> session (processStatus (resetStatus ''encrypt'' s))
       = (if status (session (processStatus s)) = Success
          then \<lparr> status = Success, type = Some Success, message = JStr ''Session active'' \<rparr>
          else session INITIAL_PROCESS_STATUS)
   \<and> decrypt (processStatus (handleEncrypt_begin s)) = decrypt INITIAL_PROCESS_STATUS
   \<and> session (processStatus (handleEncrypt_begin s))
       = session (processStatus (resetStatus ''encrypt'' s))"
  by (simp add: resetStatus_def handleGenerateKey_begin_def handleEncrypt_begin_def
      INITIAL_PROCESS_STATUS_def proc_def Let_def)

section \<open>Properties of the handlers' traces\<close>

lemmas handler_defs =
  handleGenerateKey_def handleGenerateKey_direct_def handleEncrypt_def handleEncrypt_direct_def
  handleDecryptPreview_def handleDecryptPreview_direct_def
  initiateSession_def encryptFile_def decryptFilePreview_def postFormJson_def







section \<open>Properties of the decrypt preview\<close>

text \<open>
  C9. The form sent by \<open>decryptFilePreview\<close> carries the nonce, the tag and the ciphertext it
  was given, as they are; \<open>handleDecryptPreview\<close>, in both versions, sends the three fields
  of the components it was handed, as they are. So the three strings that an encryption
  produced can be passed on unchanged.
\<close>

theorem decrypt_preview_passthrough:
  "body (fst (decryptFilePreview E api_url net u p n t c))
     = [(''user_id'', Text u), (''peer_id'', Text p),
        (''nonce'', Text n), (''tag'', Text t), (''ciphertext'', Text c)]
   \<and> url (fst (decryptFilePreview E api_url net u p n t c))
       = api_url @ ''/api/v1/decrypt-file-preview''
   \<and> requests (handleDecryptPreview E api_url net cs s)
       = [fst (decryptFilePreview E api_url net (currentUser s) (peerUser s)
                 (nonce cs) (tag cs) (ciphertext cs))]
   \<and> map body (requests (handleDecryptPreview_direct E net cs s))
       = [[(''user_id'', Text (currentUser s)), (''peer_id'', Text (peerUser s)),
           (''nonce'', Text (nonce cs)), (''tag'', Text (tag cs)),
           (''ciphertext'', Text (ciphertext cs))]]"
  by (simp add: handler_defs Let_def)

text \<open>
  The scenario of the specification: the encryption answers with the triple
  \<open>n1\<close>, \<open>t1\<close>, \<open>c1\<close>; the preview is asked with these three values and answered with the
  plaintext \<open>hello\<close>, which becomes the preview.
\<close>

lemma roundtrip_scenario:
  "snd (encryptFile sample_engine ''http://localhost:8000'' (always (Response 200 triple_body))
          ''Alice'' ''Bob'' (File ''a.txt'' ''hello''))
     = Inr (JObj [(''nonce'', JStr ''n1''), (''tag'', JStr ''t1''), (''ciphertext'', JStr ''c1'')])
   \<and> map decryptedPreview
        (updates_after_request
           (handleDecryptPreview sample_engine ''http://localhost:8000''
              (always (Response 200 hello_body))
              \<lparr> nonce = ''n1'', tag = ''t1'', ciphertext = ''c1'' \<rparr> ready_app))
       = [JStr ''hello'']"
proof -
  have k: "ok 200" by (simp add: ok_def)
  have ne: "triple_body \<noteq> []" "hello_body \<noteq> []"
    by (simp_all add: triple_body_def hello_body_def)
  show ?thesis
    using k ne
    by (simp add: handler_defs Let_def always_def postFormJson_settle_def postFormJson_try_def
        sample_parse handleDecryptPreview_settle_def js_or_def)
qed

text \<open>
  C10. Whenever a decrypt preview ends in the error state, in either version of the
  handler, the decrypted preview is not left empty: it is the text \<open>Error: \<close> followed by
  the message written to the decrypt pipeline. A network failure and every response that
  is not 2xx end in the error state.
\<close>

theorem failed_preview_shows_error:
  "(status (decrypt (processStatus (handleDecryptPreview_settle E res s))) = Error \<longrightarrow>
      decryptedPreview (handleDecryptPreview_settle E res s)
        = JStr (''Error: '' @ ToString
                  (message (decrypt (processStatus (handleDecryptPreview_settle E res s)))))
      \<and> decryptedPreview (handleDecryptPreview_settle E res s) \<noteq> JStr [])
   \<and> (status (decrypt (processStatus (handleDecryptPreview_direct_settle E r s))) = Error \<longrightarrow>
      decryptedPreview (handleDecryptPreview_direct_settle E r s)
        = JStr (''Error: '' @ ToString
                  (message (decrypt (processStatus (handleDecryptPreview_direct_settle E r s)))))
      \<and> decryptedPreview (handleDecryptPreview_direct_settle E r s) \<noteq> JStr [])
   \<and> (r = NetworkError m0 \<or> (r = Response st text \<and> \<not> ok st) \<longrightarrow>
        status (decrypt (processStatus
          (handleDecryptPreview_settle E (postFormJson_settle E r) s))) = Error
        \<and> status (decrypt (processStatus (handleDecryptPreview_direct_settle E r s))) = Error)"
proof (intro conjI impI)
  assume "status (decrypt (processStatus (handleDecryptPreview_settle E res s))) = Error"
  then show "decryptedPreview (handleDecryptPreview_settle E res s)
        = JStr (''Error: '' @ ToString
                  (message (decrypt (processStatus (handleDecryptPreview_settle E res s)))))"
    by (auto simp: handleDecryptPreview_settle_def handleDecryptPreview_catch_def proc_def Let_def
        split: sum.splits option.splits)
  then show "decryptedPreview (handleDecryptPreview_settle E res s) \<noteq> JStr []" by simp
next
  assume "status (decrypt (processStatus (handleDecryptPreview_direct_settle E r s))) = Error"
  then show "decryptedPreview (handleDecryptPreview_direct_settle E r s)
        = JStr (''Error: '' @ ToString
                  (message (decrypt (processStatus (handleDecryptPreview_direct_settle E r s)))))"
    by (auto simp: handleDecryptPreview_direct_settle_def proc_def split: sum.splits)
  then show "decryptedPreview (handleDecryptPreview_direct_settle E r s) \<noteq> JStr []" by simp
next
  assume a: "r = NetworkError m0 \<or> (r = Response st text \<and> \<not> ok st)"
  from postFormJson_settle_failing [OF a]
  obtain err where "postFormJson_settle E r = Inl err" by blast
  then show "status (decrypt (processStatus
               (handleDecryptPreview_settle E (postFormJson_settle E r) s))) = Error"
    by (simp add: handleDecryptPreview_settle_def handleDecryptPreview_catch_def proc_def Let_def)
  from a show "status (decrypt (processStatus (handleDecryptPreview_direct_settle E r s))) = Error"
    by (auto simp: handleDecryptPreview_direct_settle_def handleDecryptPreview_direct_try_def
        proc_def split: sum.splits)
qed

theorem failed_preview_shows_error_witness:
  "\<not> ok 400
   \<and> status (decrypt (processStatus (handleDecryptPreview_settle sample_engine
        (postFormJson_settle sample_engine (Response 400 ''bad request'')) initial_app))) = Error
   \<and> decryptedPreview (handleDecryptPreview_settle sample_engine
        (postFormJson_settle sample_engine (Response 400 ''bad request'')) initial_app)
       = JStr ''Error: bad request''
   \<and> status (decrypt (processStatus (handleDecryptPreview_direct_settle sample_engine
        (Response 400 ''bad request'') initial_app))) = Error
   \<and> decryptedPreview (handleDecryptPreview_direct_settle sample_engine
        (Response 400 ''bad request'') initial_app)
       = JStr ''Error: Decryption failed: 400''"
proof -
  have k: "\<not> ok 400" by (simp add: ok_def)
  have m1: "message (decrypt (processStatus (handleDecryptPreview_settle sample_engine
       (postFormJson_settle sample_engine (Response 400 ''bad request'')) initial_app)))
       = JStr ''bad request''"
    using k
    by (simp add: handleDecryptPreview_settle_def handleDecryptPreview_catch_def proc_def Let_def
        postFormJson_settle_not_ok caught_message_def guarded_prop_def)
  have m2: "message (decrypt (processStatus (handleDecryptPreview_direct_settle sample_engine
       (Response 400 ''bad request'') initial_app))) = JStr ''Decryption failed: 400''"
    using k
    by (simp add: handleDecryptPreview_direct_settle_def handleDecryptPreview_direct_try_def
        proc_def error_detail_def sample_parse show_nat_400)
  from failed_preview_shows_error
         [of sample_engine "postFormJson_settle sample_engine (Response 400 ''bad request'')"
             initial_app "Response 400 ''bad request''" "''''" 400 "''bad request''"]
    k m1 m2
  show ?thesis by simp
qed

section \<open>Properties of the cards\<close>

text \<open>
  What the cards do achieve: a pointer click runs the Encrypt button's handler only when
  the session pipeline's status is success, and the handler of the Preview or of the
  Download button only when the encrypt pipeline's status is success; otherwise the card
  takes no pointer events and its inputs are disabled.
\<close>

lemma pointer_clicks_gated:
  "(click_runs (Encryptor s selectedFile) 0 \<longrightarrow> status (session (processStatus s)) = Success)
   \<and> (click_runs (Decryptor s) 0 \<longrightarrow> status (encrypt (processStatus s)) = Success)
   \<and> (click_runs (Decryptor s) 1 \<longrightarrow> status (encrypt (processStatus s)) = Success)
   \<and> (status (session (processStatus s)) \<noteq> Success \<longrightarrow>
        pointer_events_none (Encryptor s selectedFile) \<and> inputs_disabled (Encryptor s selectedFile))
   \<and> (status (encrypt (processStatus s)) \<noteq> Success \<longrightarrow>
        pointer_events_none (Decryptor s) \<and> inputs_disabled (Decryptor s))"
  by (simp add: click_runs_def Encryptor_def Decryptor_def isSessionReady_def isEncryptReady_def
      AnimatedCard_pointer_events_none_def Let_def)

text \<open>
  The buttons themselves do not know the gate: whenever nothing is loading, the Preview
  and the Download button are enabled, and so is the Encrypt button once a file is
  selected, whatever the statuses of the pipelines are.
\<close>

lemma buttons_ignore_gate:
  assumes "\<not> isLoading s"
  shows "keyboard_runs (Decryptor s) 0 \<and> keyboard_runs (Decryptor s) 1
       \<and> keyboard_runs (Encryptor s (Some f)) 0"
  using assms
  by (simp add: keyboard_runs_def Encryptor_def Decryptor_def Button_disabled_def Let_def)

text \<open>
  C1 (the code where the claim fails). In the App as first loaded the encrypt pipeline is
  idle and the Decryptor card takes no pointer events, yet its Preview and Download buttons
  are rendered enabled, so both operations can be started from the keyboard, and the
  preview handler then issues its request with the encrypt pipeline still not successful.
  Likewise, after the same-identity guard has put the session into the error state, the
  Encrypt button of a card that still holds a selected file is enabled and the encryption
  can be started.
\<close>

theorem gate_closed_operations_start:
  "status (encrypt (processStatus initial_app)) = Idle
   \<and> pointer_events_none (Decryptor initial_app)
   \<and> inputs_disabled (Decryptor initial_app)
   \<and> buttons_disabled (Decryptor initial_app) = [False, False]
   \<and> can_start (Decryptor initial_app) 0
   \<and> can_start (Decryptor initial_app) 1
   \<and> map url (requests (handleDecryptPreview sample_engine ''http://localhost:8000''
                  (always (Response 200 hello_body)) empty_components initial_app))
       = [''http://localhost:8000/api/v1/decrypt-file-preview'']
   \<and> status (session (processStatus (same_user_state (ready_app \<lparr> peerUser := ''Alice'' \<rparr>)))) = Error
   \<and> pointer_events_none
        (Encryptor (same_user_state (ready_app \<lparr> peerUser := ''Alice'' \<rparr>))
           (Some (File ''a.txt'' ''hello'')))
   \<and> buttons_disabled
        (Encryptor (same_user_state (ready_app \<lparr> peerUser := ''Alice'' \<rparr>))
           (Some (File ''a.txt'' ''hello''))) = [False]
   \<and> can_start
        (Encryptor (same_user_state (ready_app \<lparr> peerUser := ''Alice'' \<rparr>))
           (Some (File ''a.txt'' ''hello''))) 0"
  by (simp add: can_start_def keyboard_runs_def click_runs_def Encryptor_def Decryptor_def
      isSessionReady_def isEncryptReady_def AnimatedCard_pointer_events_none_def
      Button_disabled_def Let_def same_user_state_def ready_app_def initial_app_def
      INITIAL_PROCESS_STATUS_def proc_def handleDecryptPreview_def decryptFilePreview_def
      postFormJson_def empty_components_def)

end
